theory Spec2Isabelle
  imports Complex_Main
begin

section \<open>Python and numpy values\<close>

text \<open>
  Exceptions of the Python code are values: every function of the model that can raise
  returns \<open>pyerr + 'a\<close>, with \<open>Inl\<close> the exception.
\<close>

datatype pyerr = ValueError | TypeError | UnboundLocalError | AttributeError

definition bind_err :: "pyerr + 'a \<Rightarrow> ('a \<Rightarrow> pyerr + 'b) \<Rightarrow> pyerr + 'b" where
  "bind_err m k = (case m of Inl e \<Rightarrow> Inl e | Inr x \<Rightarrow> k x)"

text \<open>
  A float64 that a numpy computation produces is a finite real, an infinity or NaN.
  Input arrays (grid points, densities) hold finite values and are lists of reals.
  Rounding, overflow and the sign of zero are not modelled; the special values are,
  because numpy's division by zero does not raise: it yields an infinity or NaN.
\<close>

datatype npfloat = Fin real | PInf | NInf | NaN

fun fneg :: "npfloat \<Rightarrow> npfloat" where
  "fneg (Fin x) = Fin (- x)"
| "fneg PInf = NInf"
| "fneg NInf = PInf"
| "fneg NaN = NaN"

fun fadd :: "npfloat \<Rightarrow> npfloat \<Rightarrow> npfloat" where
  "fadd NaN _ = NaN"
| "fadd _ NaN = NaN"
| "fadd (Fin x) (Fin y) = Fin (x + y)"
| "fadd (Fin x) PInf = PInf"
| "fadd (Fin x) NInf = NInf"
| "fadd PInf (Fin y) = PInf"
| "fadd NInf (Fin y) = NInf"
| "fadd PInf PInf = PInf"
| "fadd NInf NInf = NInf"
| "fadd PInf NInf = NaN"
| "fadd NInf PInf = NaN"

definition fsub :: "npfloat \<Rightarrow> npfloat \<Rightarrow> npfloat" where
  "fsub x y = fadd x (fneg y)"

definition inf_of_sign :: "real \<Rightarrow> npfloat" where
  "inf_of_sign s = (if s = 0 then NaN else if 0 < s then PInf else NInf)"

fun fmul :: "npfloat \<Rightarrow> npfloat \<Rightarrow> npfloat" where
  "fmul NaN _ = NaN"
| "fmul _ NaN = NaN"
| "fmul (Fin x) (Fin y) = Fin (x * y)"
| "fmul (Fin x) PInf = inf_of_sign x"
| "fmul (Fin x) NInf = inf_of_sign (- x)"
| "fmul PInf (Fin y) = inf_of_sign y"
| "fmul NInf (Fin y) = inf_of_sign (- y)"
| "fmul PInf PInf = PInf"
| "fmul NInf NInf = PInf"
| "fmul PInf NInf = NInf"
| "fmul NInf PInf = NInf"

fun fdiv :: "npfloat \<Rightarrow> npfloat \<Rightarrow> npfloat" where
  "fdiv NaN _ = NaN"
| "fdiv _ NaN = NaN"
| "fdiv (Fin x) (Fin y) = (if y = 0 then inf_of_sign x else Fin (x / y))"
| "fdiv (Fin x) PInf = Fin 0"
| "fdiv (Fin x) NInf = Fin 0"
| "fdiv PInf (Fin y) = (if 0 \<le> y then PInf else NInf)"
| "fdiv NInf (Fin y) = (if 0 \<le> y then NInf else PInf)"
| "fdiv PInf PInf = NaN"
| "fdiv NInf NInf = NaN"
| "fdiv PInf NInf = NaN"
| "fdiv NInf PInf = NaN"

fun fexp :: "npfloat \<Rightarrow> npfloat" where
  "fexp (Fin x) = Fin (exp x)"
| "fexp PInf = PInf"
| "fexp NInf = Fin 0"
| "fexp NaN = NaN"

fun flog :: "npfloat \<Rightarrow> npfloat" where
  "flog (Fin x) = (if 0 < x then Fin (ln x) else if x = 0 then NInf else NaN)"
| "flog PInf = PInf"
| "flog NInf = NaN"
| "flog NaN = NaN"

text \<open>The comparison \<open>x < y\<close> of two floats: false as soon as one of them is NaN.\<close>

fun flt :: "npfloat \<Rightarrow> npfloat \<Rightarrow> bool" where
  "flt NaN _ = False"
| "flt _ NaN = False"
| "flt (Fin x) (Fin y) = (x < y)"
| "flt (Fin x) PInf = True"
| "flt (Fin x) NInf = False"
| "flt PInf _ = False"
| "flt NInf (Fin y) = True"
| "flt NInf PInf = True"
| "flt NInf NInf = False"

definition fsum :: "npfloat list \<Rightarrow> npfloat" where
  "fsum xs = foldl fadd (Fin 0) xs"

fun is_fin :: "npfloat \<Rightarrow> bool" where
  "is_fin (Fin x) = True"
| "is_fin _ = False"

text \<open>
  An elementwise operation of two 1-D arrays: equal lengths, or one operand of length
  one that is broadcast; anything else raises ValueError.
\<close>

definition broadcast2 :: "('a \<Rightarrow> 'b \<Rightarrow> 'c) \<Rightarrow> 'a list \<Rightarrow> 'b list \<Rightarrow> pyerr + 'c list" where
  "broadcast2 f xs ys =
     (if length xs = length ys then Inr (map2 f xs ys)
      else if length xs = 1 then Inr (map (f (hd xs)) ys)
      else if length ys = 1 then Inr (map (\<lambda>x. f x (hd ys)) xs)
      else Inl ValueError)"

section \<open>bfit/greedy/greedy\_lq.py\<close>

text \<open>
  The class \<open>GreedyLeastSquares\<close>. Its collaborators are not part of the sources at hand:
  the class \<open>AtomicGaussianDensity\<close> behind \<open>gauss_obj\<close> (its attributes \<open>_density\<close> and
  \<open>element\<close>, its methods \<open>cost_function\<close>, \<open>create_cofactor_matrix\<close> and
  \<open>generation_of_UGBS_exponents\<close>), the two optimizers of \<open>bfit.greedy.optimize\<close> and the
  attribute \<open>ugbs\<close>, which \<open>__init__\<close> never sets. They are fields of the record, so every
  statement below holds for whatever they are. \<open>ugbs = None\<close> stands for an attribute that
  does not exist. \<open>'m\<close> is the type of a cofactor matrix, \<open>'u\<close> of the table of exponents.
\<close>

record ('m, 'u) GreedyLeastSquares =
  grid_points :: "real list"
  density :: "real list"
  element :: "string option"
  ugbs :: "'u option"
  cost_function :: "npfloat list \<Rightarrow> pyerr + npfloat"
  create_cofactor_matrix :: "npfloat list \<Rightarrow> pyerr + 'm"
  generation_of_UGBS_exponents :: "real \<Rightarrow> 'u \<Rightarrow> pyerr + npfloat list"
  optimize_using_nnls :: "real list \<Rightarrow> 'm \<Rightarrow> pyerr + npfloat list"
  optimize_using_slsqp :: "npfloat list \<Rightarrow> pyerr + npfloat list"

text \<open>
  \<open>get_cost_function\<close> calls the cost function and has no \<open>return\<close>: the value of a call
  that returns is Python's \<open>None\<close>, here \<open>None\<close> of \<open>npfloat option\<close>.
\<close>

definition get_cost_function ::
  "('m, 'u) GreedyLeastSquares \<Rightarrow> npfloat list \<Rightarrow> pyerr + npfloat option" where
  "get_cost_function self params =
     bind_err (cost_function self params) (\<lambda>_. Inr None)"

text \<open>
  \<open>_solve_one_function_weight\<close>. The sums \<open>a\<close>, \<open>b\<close>, \<open>e\<close> are over finite numbers; \<open>c\<close> and
  \<open>f\<close> go through \<open>np.log\<close>, which is \<open>-inf\<close> at 0 and NaN below. The two divisions do not
  raise when the denominator is 0.
\<close>

definition solve_one_function_weight ::
  "('m, 'u) GreedyLeastSquares \<Rightarrow> real list \<Rightarrow> pyerr + npfloat list" where
  "solve_one_function_weight self weight =
     (let a = Fin (2 * sum_list weight) in
      bind_err (broadcast2 (*) weight (map (\<lambda>r. r ^ 2) (grid_points self))) (\<lambda>wp2.
      let sum_of_grid_squared = sum_list wp2;
          b = Fin (2 * sum_of_grid_squared) in
      bind_err (broadcast2 fmul (map Fin weight) (map (\<lambda>x. flog (Fin x)) (density self))) (\<lambda>wl.
      let sum_ln_electron_density = fsum wl;
          c = fmul (Fin 2) sum_ln_electron_density;
          d = b in
      bind_err (broadcast2 (*) weight (map (\<lambda>r. r ^ 4) (grid_points self))) (\<lambda>wp4.
      let e = Fin (2 * sum_list wp4) in
      bind_err (broadcast2 (*) weight (map (\<lambda>r. r ^ 2) (grid_points self))) (\<lambda>wq.
      bind_err (broadcast2 fmul (map Fin wq) (map (\<lambda>x. flog (Fin x)) (density self))) (\<lambda>wql.
      let f = fmul (Fin 2) (fsum wql);
          big_a = fdiv (fsub (fmul b f) (fmul c e)) (fsub (fmul b d) (fmul a e));
          big_b = fdiv (fsub (fmul a f) (fmul c d)) (fsub (fmul a e) (fmul b d));
          coefficient = fexp big_a;
          exponent = fneg big_b
      in Inr [coefficient, exponent]))))))"

text \<open>
  Python's \<open>min(xs, key=k)\<close> on a non-empty list: the first element is the candidate, and
  a later element replaces it only when its key compares strictly below.
\<close>

fun py_min_from :: "('a \<Rightarrow> npfloat) \<Rightarrow> 'a \<Rightarrow> 'a list \<Rightarrow> 'a" where
  "py_min_from k best [] = best"
| "py_min_from k best (x # xs) = py_min_from k (if flt (k x) (k best) then x else best) xs"

text \<open>
  \<open>get_optimization_routine\<close>: the exponents are the slice \<open>params[len(params)//2:]\<close>.
\<close>

definition get_optimization_routine ::
  "('m, 'u) GreedyLeastSquares \<Rightarrow> npfloat list \<Rightarrow> pyerr + npfloat list" where
  "get_optimization_routine self params =
     (let exps = drop (length params div 2) params in
      bind_err (create_cofactor_matrix self exps) (\<lambda>cofac_matrix.
      bind_err (optimize_using_nnls self (density self) cofac_matrix) (\<lambda>coeffs.
      let p = coeffs @ exps in
      optimize_using_slsqp self p)))"

text \<open>
  \<open>np.append(arr, values, axis=None)\<close> has two required arguments. The source calls it
  with one, a tuple of the three arrays: Python raises TypeError before numpy runs.
\<close>

definition np_append_one_argument :: "'a \<Rightarrow> pyerr + npfloat list" where
  "np_append_one_argument arr = Inl TypeError"

text \<open>
  The body of the loop over the table's exponents, on the pair of locals
  \<open>(val, best_found)\<close>. \<open>best_found = None\<close> is Python's \<open>None\<close>.
\<close>

definition ugbs_step ::
  "('m, 'u) GreedyLeastSquares \<Rightarrow> real list \<Rightarrow> npfloat \<times> npfloat list option \<Rightarrow> npfloat
     \<Rightarrow> pyerr + (npfloat \<times> npfloat list option)" where
  "ugbs_step self grid_squared st ex =
     bind_err (broadcast2 fmul (map Fin (density self))
                 (map (\<lambda>g. fexp (fmul (fneg ex) (Fin g))) grid_squared)) (\<lambda>prods.
     let num = fsum prods;
         den = fsum (map (\<lambda>g. fexp (fmul (fmul (Fin (- 2)) ex) (Fin g))) grid_squared);
         c = fdiv num den;
         p = [c, ex] in
     bind_err (get_optimization_routine self p) (\<lambda>p.
     bind_err (cost_function self p) (\<lambda>cost_func.
     if flt cost_func (fst st) then Inr (cost_func, Some p) else Inr st)))"

fun ugbs_loop ::
  "('m, 'u) GreedyLeastSquares \<Rightarrow> real list \<Rightarrow> npfloat \<times> npfloat list option \<Rightarrow> npfloat list
     \<Rightarrow> pyerr + (npfloat \<times> npfloat list option)" where
  "ugbs_loop self grid_squared st [] = Inr st"
| "ugbs_loop self grid_squared st (ex # exs) =
     bind_err (ugbs_step self grid_squared st ex) (\<lambda>st'. ugbs_loop self grid_squared st' exs)"

text \<open>
  \<open>get_best_one_function_solution\<close>. The local \<open>best_found\<close> is assigned only inside the
  branch \<open>element is not None\<close>; read without it, Python raises UnboundLocalError. The
  result \<open>Inr None\<close> is the return value \<open>None\<close> (\<open>best_found\<close> as initialised).
\<close>

definition get_best_one_function_solution ::
  "('m, 'u) GreedyLeastSquares \<Rightarrow> pyerr + npfloat list option" where
  "get_best_one_function_solution self =
     (let weight1 = replicate (length (grid_points self)) 1;
          weight3 = map (\<lambda>x. x ^ 2) (density self) in
      bind_err (solve_one_function_weight self weight1) (\<lambda>p1.
      bind_err (cost_function self p1) (\<lambda>cost_func1.
      bind_err (solve_one_function_weight self (density self)) (\<lambda>p2.
      bind_err (cost_function self p2) (\<lambda>cost_func2.
      bind_err (solve_one_function_weight self weight3) (\<lambda>p3.
      bind_err (cost_function self p3) (\<lambda>cost_func3.
      let p_min = py_min_from fst (cost_func1, p1) [(cost_func2, p2), (cost_func3, p3)];
          val = Fin (10 ^ 10) in
      (case element self of
         None \<Rightarrow>
           if flt (fst p_min) val then Inr (Some (snd p_min)) else Inl UnboundLocalError
       | Some el \<Rightarrow>
           (case ugbs self of
              None \<Rightarrow> Inl AttributeError
            | Some table \<Rightarrow>
                bind_err (generation_of_UGBS_exponents self 1.25 table) (\<lambda>exp_choice1.
                bind_err (generation_of_UGBS_exponents self 1.5 table) (\<lambda>exp_choice2.
                bind_err (generation_of_UGBS_exponents self 1.75 table) (\<lambda>exp_choice3.
                let grid_squared = map (\<lambda>r. r ^ 2) (grid_points self);
                    best_found = None in
                bind_err (np_append_one_argument (exp_choice1, exp_choice2, exp_choice3)) (\<lambda>exps.
                bind_err (ugbs_loop self grid_squared (val, best_found) exps) (\<lambda>st.
                if flt (fst p_min) (fst st) then Inr (Some (snd p_min))
                else Inr (snd st)))))))))))))))"

text \<open>
  Modelled from the spec: the cost function of the absent class \<open>AtomicGaussianDensity\<close>.
  The spec, section 4.3: \<open>create_model(params)\<close> is the sum over k of
  \<open>coeff_k * exp(-exponent_k * r^2)\<close> at every grid point, the first half of \<open>params\<close> the
  coefficients and the second half the exponents; \<open>cost_function(params)\<close> is the sum of
  the squared residuals between the target density and the model.
\<close>

definition create_model_spec :: "real list \<Rightarrow> npfloat list \<Rightarrow> npfloat list" where
  "create_model_spec pts params =
     (let k = length params div 2 in
      map (\<lambda>r. fsum (map2 (\<lambda>c ex. fmul c (fexp (fneg (fmul ex (Fin (r ^ 2))))))
                         (take k params) (drop k params))) pts)"

definition cost_function_spec :: "real list \<Rightarrow> real list \<Rightarrow> npfloat list \<Rightarrow> npfloat" where
  "cost_function_spec pts dens params =
     fsum (map2 (\<lambda>rho g. fmul (fsub (Fin rho) g) (fsub (Fin rho) g))
             dens (create_model_spec pts params))"

text \<open>
  Modelled from the spec: \<open>create_cofactor_matrix\<close> of the absent class. The spec, section
  4.3: entry (i,k) is \<open>exp(-exponent_k * r_i^2)\<close>.
\<close>

definition create_cofactor_matrix_spec :: "real list \<Rightarrow> npfloat list \<Rightarrow> npfloat list list" where
  "create_cofactor_matrix_spec pts exps =
     map (\<lambda>r. map (\<lambda>ex. fexp (fneg (fmul ex (Fin (r ^ 2))))) exps) pts"

text \<open>
  A concrete object for the closed instances below: the cost function and the cofactor
  matrix are the spec's; the two optimizers are stand-ins (the linear stage answers with
  one zero coefficient per column, the nonlinear stage with its initial point); the table
  scaling multiplies every entry. No attribute \<open>ugbs\<close>, as the constructor leaves it.
\<close>

definition example_fit ::
  "real list \<Rightarrow> real list \<Rightarrow> string option \<Rightarrow> (npfloat list list, real list) GreedyLeastSquares" where
  "example_fit pts dens el =
     \<lparr> grid_points = pts, density = dens, element = el, ugbs = None,
       cost_function = (\<lambda>p. Inr (cost_function_spec pts dens p)),
       create_cofactor_matrix = (\<lambda>exps. Inr (create_cofactor_matrix_spec pts exps)),
       generation_of_UGBS_exponents = (\<lambda>s table. Inr (map (\<lambda>x. Fin (s * x)) table)),
       optimize_using_nnls =
         (\<lambda>d m. Inr (case m of [] \<Rightarrow> [] | row # _ \<Rightarrow> map (\<lambda>_. Fin 0) row)),
       optimize_using_slsqp = (\<lambda>p. Inr p) \<rparr>"

section \<open>numpy arrays\<close>

text \<open>
  An \<open>ndarray\<close> of finite floats: its shape and its elements in row-major order. Of a
  numpy array the number of elements is the product of the shape (\<open>valid_ndarray\<close>); a
  1-D array of n elements has shape \<open>[n]\<close>. \<open>NotArray\<close> is any Python object that is not
  an instance of \<open>np.ndarray\<close>.
\<close>

record ndarray =
  shape :: "nat list"
  flat :: "real list"

definition valid_ndarray :: "ndarray \<Rightarrow> bool" where
  "valid_ndarray a = (length (flat a) = prod_list (shape a))"

definition ndim :: "ndarray \<Rightarrow> nat" where
  "ndim a = length (shape a)"

definition array1 :: "real list \<Rightarrow> ndarray" where
  "array1 xs = \<lparr> shape = [length xs], flat = xs \<rparr>"

datatype pyobj = Array ndarray | NotArray

text \<open>A scalar argument of a constructor, as the \<open>isinstance\<close> tests see it.\<close>

datatype pyval = PyInt int | PyFloat real | PyOther

fun is_number :: "pyval \<Rightarrow> bool" where
  "is_number (PyInt n) = True"
| "is_number (PyFloat x) = True"
| "is_number PyOther = False"

fun num_val :: "pyval \<Rightarrow> real" where
  "num_val (PyInt n) = of_int n"
| "num_val (PyFloat x) = x"
| "num_val PyOther = 0"

section \<open>bfit/measure.py: KLDivergence\<close>

record KLDivergence =
  kl_density :: ndarray
  kl_mask_value :: real

definition default_mask_value :: real where
  "default_mask_value = 1 / 10 ^ 12"

definition KLDivergence_init :: "pyobj \<Rightarrow> real \<Rightarrow> pyerr + KLDivergence" where
  "KLDivergence_init dens mask_val =
     (case dens of
        NotArray \<Rightarrow> Inl ValueError
      | Array d \<Rightarrow>
          if ndim d \<noteq> 1 then Inl ValueError
          else if (\<exists>x \<in> set (flat d). x < 0) then Inl ValueError
          else Inr \<lparr> kl_density = d, kl_mask_value = mask_val \<rparr>)"

text \<open>
  A masked array is a list of optional values, \<open>None\<close> a masked entry.
  \<open>np.ma.masked_less_equal(x, v)\<close> masks the entries \<open>x <= v\<close>. The division of an array by
  a masked array is \<open>numpy.ma\<close>'s \<open>true_divide\<close>: it keeps the divisor's mask and masks two
  more kinds of entry, those outside the domain of its safe division, which is
  \<open>abs(a) * tiny >= abs(b)\<close> with \<open>tiny\<close> the smallest normal float64 (a divisor of zero is
  among them), and those whose quotient is not finite, here a quotient beyond the largest
  float64. The product \<open>abs(a) * tiny\<close> is the exact one, as every product of the model is
  (float64 rounds it only below \<open>tiny\<close>, where it is subnormal). \<open>np.ma.filled\<close> puts the
  fill value at the masked entries.
\<close>

definition float_tiny :: real where
  "float_tiny = 1 / 2 ^ 1022"

definition float_max :: real where
  "float_max = (2 - 1 / 2 ^ 52) * 2 ^ 1023"

definition masked_less_equal :: "real list \<Rightarrow> real \<Rightarrow> real option list" where
  "masked_less_equal xs v = map (\<lambda>x. if x \<le> v then None else Some x) xs"

definition ma_rtruediv :: "real list \<Rightarrow> real option list \<Rightarrow> real option list" where
  "ma_rtruediv xs ms =
     map2 (\<lambda>x m. case m of None \<Rightarrow> None
                  | Some y \<Rightarrow>
                      if \<bar>y\<bar> \<le> \<bar>x\<bar> * float_tiny \<or> float_max < \<bar>x / y\<bar> then None
                      else Some (x / y)) xs ms"

definition ma_filled :: "real option list \<Rightarrow> real \<Rightarrow> real list" where
  "ma_filled ms fill_value = map (\<lambda>m. case m of None \<Rightarrow> fill_value | Some x \<Rightarrow> x) ms"

text \<open>
  What \<open>evaluate\<close> returns (on a shape mismatch the message of the ValueError takes
  \<open>len(model)\<close>, which itself raises TypeError for an array of no dimension): the integrand, or with \<open>deriv=True\<close> the pair of the integrand
  and the derivative. The integrand goes through \<open>np.log\<close>, so its entries are \<open>npfloat\<close>.
\<close>

datatype kl_result = Integrand "npfloat list" | IntegrandDeriv "npfloat list" "real list"

definition evaluate :: "KLDivergence \<Rightarrow> pyobj \<Rightarrow> bool \<Rightarrow> pyerr + kl_result" where
  "evaluate self model deriv =
     (case model of
        NotArray \<Rightarrow> Inl ValueError
      | Array m \<Rightarrow>
          if shape m \<noteq> shape (kl_density self)
          then (if shape m = [] then Inl TypeError else Inl ValueError)
          else if (\<exists>x \<in> set (flat m). x < 0) then Inl ValueError
          else
            let ratio = ma_rtruediv (flat (kl_density self))
                          (masked_less_equal (flat m) (kl_mask_value self));
                ratio = ma_filled ratio 1;
                val = map2 (\<lambda>d r. fmul (Fin d) (flog (Fin r))) (flat (kl_density self)) ratio
            in if deriv then Inr (IntegrandDeriv val (map uminus ratio))
               else Inr (Integrand val))"

section \<open>fitting/grid.py\<close>

record BaseRadialGrid =
  points :: "real list"
  spherical :: bool

definition BaseRadialGrid_init :: "pyobj \<Rightarrow> bool \<Rightarrow> pyerr + BaseRadialGrid" where
  "BaseRadialGrid_init pts sph =
     (case pts of
        NotArray \<Rightarrow> Inl TypeError
      | Array a \<Rightarrow>
          if ndim a \<noteq> 1 then Inl TypeError
          else Inr \<lparr> points = flat a, spherical = sph \<rparr>)"

text \<open>
  \<open>np.diff\<close> and \<open>np.trapz(y, x)\<close> on 1-D arrays, as numpy computes them:
  \<open>d = diff(x); (d * (y[1:] + y[:-1]) / 2.0).sum()\<close>.
\<close>

definition np_diff :: "real list \<Rightarrow> real list" where
  "np_diff xs = map2 (-) (tl xs) (butlast xs)"

definition trapz :: "real list \<Rightarrow> real list \<Rightarrow> real" where
  "trapz y x = sum_list (map2 (\<lambda>d s. d * s / 2) (np_diff x) (map2 (+) (tl y) (butlast y)))"

definition integrate :: "BaseRadialGrid \<Rightarrow> ndarray \<Rightarrow> pyerr + real" where
  "integrate self arr =
     (if shape arr \<noteq> [length (points self)] then Inl ValueError
      else if spherical self
        then Inr (4 * pi * trapz (map2 (*) (map (\<lambda>p. p ^ 2) (points self)) (flat arr)) (points self))
        else Inr (trapz (flat arr) (points self)))"

text \<open>
  The trapezoidal rule as the spec words it, over the sample positions \<open>xs\<close> and the
  values \<open>ys\<close>: the sum over consecutive points of width times mean height.
\<close>

definition trapezoidal_rule :: "real list \<Rightarrow> real list \<Rightarrow> real" where
  "trapezoidal_rule xs ys =
     (\<Sum>i < length xs - 1. (xs ! (i + 1) - xs ! i) * (ys ! i + ys ! (i + 1)) / 2)"

text \<open>\<open>np.linspace(start, stop, num)\<close> for \<open>num > 0\<close>, and \<open>np.arange(start, stop, step)\<close>.\<close>

definition linspace :: "real \<Rightarrow> real \<Rightarrow> nat \<Rightarrow> real list" where
  "linspace start stop num =
     (if num = 1 then [start]
      else map (\<lambda>i. start + real i * ((stop - start) / real (num - 1))) [0..<num])"

definition arange :: "real \<Rightarrow> real \<Rightarrow> real \<Rightarrow> real list" where
  "arange start stop stp =
     map (\<lambda>i. start + real i * stp) [0..<nat \<lceil>(stop - start) / stp\<rceil>]"

definition UniformRadialGrid_init ::
  "pyval \<Rightarrow> pyval \<Rightarrow> pyval \<Rightarrow> bool \<Rightarrow> pyerr + BaseRadialGrid" where
  "UniformRadialGrid_init num_pts min_radii max_radii sph =
     (case num_pts of
        PyInt n \<Rightarrow>
          if n \<le> 0 then Inl TypeError
          else if \<not> is_number min_radii then Inl TypeError
          else if \<not> is_number max_radii then Inl TypeError
          else if num_val max_radii \<le> num_val min_radii then Inl ValueError
          else BaseRadialGrid_init
                 (Array (array1 (linspace (num_val min_radii) (num_val max_radii) (nat n)))) sph
      | _ \<Rightarrow> Inl TypeError)"

record ClenshawRadialGrid = BaseRadialGrid +
  atomic_number :: int

datatype grid_mode = Core | Diffuse | OtherMode

text \<open>
  \<open>_get_points\<close>. The constructor calls it with the modes "core" and "diffuse" only; any
  other string raises. For \<open>num_pts = 0\<close> the array \<open>np.arange(0, 0)\<close> is empty and so is the
  result: numpy divides no element by zero.
\<close>

definition get_points :: "int \<Rightarrow> nat \<Rightarrow> grid_mode \<Rightarrow> pyerr + real list" where
  "get_points z num_pts mode =
     (case mode of
        Core \<Rightarrow>
          Inr (map (\<lambda>p. (1 - cos (0.5 * pi * real p / real num_pts)) / (2 * of_int z))
                 [0..<num_pts])
      | Diffuse \<Rightarrow>
          Inr (map (\<lambda>p. 25 * (1 - cos (0.5 * pi * real p / real num_pts))) [0..<num_pts])
      | OtherMode \<Rightarrow> Inl ValueError)"

text \<open>
  The argument \<open>extra_pts\<close>: \<open>None\<close>, a list of numbers (falsy when empty), or a truthy
  object that is a string or has no \<open>__iter__\<close>.
\<close>

datatype extra_pts = ExtraNone | ExtraList "real list" | ExtraNotIterable

fun pos_int :: "pyval \<Rightarrow> bool" where
  "pos_int (PyInt n) = (0 < n)"
| "pos_int _ = False"

fun nonneg_int :: "pyval \<Rightarrow> bool" where
  "nonneg_int (PyInt n) = (0 \<le> n)"
| "nonneg_int _ = False"

fun int_val :: "pyval \<Rightarrow> int" where
  "int_val (PyInt n) = n"
| "int_val _ = 0"

definition ClenshawRadialGrid_init ::
  "pyval \<Rightarrow> pyval \<Rightarrow> pyval \<Rightarrow> extra_pts \<Rightarrow> bool \<Rightarrow> pyerr + ClenshawRadialGrid" where
  "ClenshawRadialGrid_init z num_core_pts num_diffuse_pts extra sph =
     (if \<not> pos_int z then Inl TypeError
      else if \<not> nonneg_int num_core_pts then Inl TypeError
      else if \<not> nonneg_int num_diffuse_pts then Inl TypeError
      else
        bind_err (get_points (int_val z) (nat (int_val num_core_pts)) Core) (\<lambda>core_points.
        bind_err (get_points (int_val z) (nat (int_val num_diffuse_pts)) Diffuse) (\<lambda>diff_points.
        bind_err
          (case extra of
             ExtraNone \<Rightarrow> Inr (core_points @ tl diff_points)
           | ExtraList [] \<Rightarrow> Inr (core_points @ tl diff_points)
           | ExtraList (x # xs) \<Rightarrow> Inr (core_points @ tl diff_points @ (x # xs))
           | ExtraNotIterable \<Rightarrow> Inl TypeError) (\<lambda>pts.
        bind_err (BaseRadialGrid_init (Array (array1 (sort pts))) sph) (\<lambda>base.
        Inr \<lparr> points = points base, spherical = spherical base,
              atomic_number = int_val z \<rparr>)))))"

record CubicGrid =
  cubic_points :: "real list list"
  step :: real

definition np_repeat :: "'a list \<Rightarrow> nat \<Rightarrow> 'a list" where
  "np_repeat xs k = concat (map (replicate k) xs)"

definition np_tile :: "'a list \<Rightarrow> nat \<Rightarrow> 'a list" where
  "np_tile xs k = concat (replicate k xs)"

definition CubicGrid_init :: "pyval \<Rightarrow> pyval \<Rightarrow> pyval \<Rightarrow> pyerr + CubicGrid" where
  "CubicGrid_init smallest_pnt largest_pnt step_size =
     (if \<not> is_number smallest_pnt then Inl TypeError
      else if \<not> is_number largest_pnt then Inl TypeError
      else if \<not> is_number step_size \<or> num_val step_size \<le> 0 then Inl TypeError
      else if num_val largest_pnt \<le> num_val smallest_pnt then Inl ValueError
      else
        let points_1d = arange (num_val smallest_pnt)
                          (num_val largest_pnt + num_val step_size) (num_val step_size);
            npoints = length points_1d;
            xs = np_repeat points_1d (npoints ^ 2);
            ys = np_tile (np_repeat points_1d npoints) npoints;
            zs = np_tile points_1d (npoints ^ 2)
        in Inr \<lparr> cubic_points = map (\<lambda>(x, y, z). [x, y, z]) (zip xs (zip ys zs)),
                 step = num_val step_size \<rparr>)"

section \<open>The normal equations of the seed stage\<close>

text \<open>
  The coefficients of the 2x2 system that \<open>_solve_one_function_weight\<close> forms, as sums of
  reals (the values of the locals \<open>a\<close>, \<open>b\<close>, \<open>c\<close>, \<open>e\<close>, \<open>f\<close> when every density is
  positive; \<open>d\<close> is \<open>b\<close>), and the determinant of the system
  \<open>a * A + b * B = c\<close>, \<open>d * A + e * B = f\<close>.
\<close>

definition ne_a :: "real list \<Rightarrow> real" where
  "ne_a w = 2 * sum_list w"

definition ne_b :: "real list \<Rightarrow> real list \<Rightarrow> real" where
  "ne_b pts w = 2 * sum_list (map2 (*) w (map (\<lambda>r. r ^ 2) pts))"

definition ne_c :: "real list \<Rightarrow> real list \<Rightarrow> real" where
  "ne_c dens w = 2 * sum_list (map2 (\<lambda>w x. w * ln x) w dens)"

definition ne_e :: "real list \<Rightarrow> real list \<Rightarrow> real" where
  "ne_e pts w = 2 * sum_list (map2 (*) w (map (\<lambda>r. r ^ 4) pts))"

definition ne_f :: "real list \<Rightarrow> real list \<Rightarrow> real list \<Rightarrow> real" where
  "ne_f pts dens w =
     2 * sum_list (map2 (\<lambda>w x. w * ln x) (map2 (*) w (map (\<lambda>r. r ^ 2) pts)) dens)"

definition normal_det :: "real list \<Rightarrow> real list \<Rightarrow> real" where
  "normal_det pts w = ne_a w * ne_e pts w - ne_b pts w * ne_b pts w"

text \<open>
  The weighted least-squares problem behind the system, in the spec's words: fit
  \<open>ln(density) = ln(coefficient) - exponent * r^2\<close>, that is \<open>A + B * r^2\<close> with
  \<open>A = ln(coefficient)\<close> and \<open>B = - exponent\<close>, under the weights \<open>w\<close>. Its error, and the
  two sums that vanish where the error is stationary.
\<close>

definition weighted_log_error :: "real list \<Rightarrow> real list \<Rightarrow> real list \<Rightarrow> real \<Rightarrow> real \<Rightarrow> real" where
  "weighted_log_error pts dens w A B =
     sum_list (map (\<lambda>(w, r, rho). w * (ln rho - (A + B * r ^ 2)) ^ 2) (zip w (zip pts dens)))"

definition residual_sum :: "real list \<Rightarrow> real list \<Rightarrow> real list \<Rightarrow> real \<Rightarrow> real \<Rightarrow> real" where
  "residual_sum pts dens w A B =
     sum_list (map (\<lambda>(w, r, rho). w * (ln rho - (A + B * r ^ 2))) (zip w (zip pts dens)))"

definition residual_moment :: "real list \<Rightarrow> real list \<Rightarrow> real list \<Rightarrow> real \<Rightarrow> real \<Rightarrow> real" where
  "residual_moment pts dens w A B =
     sum_list (map (\<lambda>(w, r, rho). w * r ^ 2 * (ln rho - (A + B * r ^ 2))) (zip w (zip pts dens)))"

text \<open>
  Two sums for the determinant: over weights \<open>ws\<close> and abscissae \<open>ss\<close>, the weighted
  squared distance to \<open>t\<close>, and the Gram determinant of the system.
\<close>

definition spread :: "real list \<Rightarrow> real list \<Rightarrow> real \<Rightarrow> real" where
  "spread ws ss t = sum_list (map2 (\<lambda>w s. w * (s - t) ^ 2) ws ss)"

definition gram_det :: "real list \<Rightarrow> real list \<Rightarrow> real" where
  "gram_det ws ss =
     sum_list ws * sum_list (map2 (\<lambda>w s. w * s ^ 2) ws ss) - (sum_list (map2 (*) ws ss)) ^ 2"

section \<open>Lemmas on floats, lists and the Python minimum\<close>

lemma foldl_fadd_Fin: "foldl fadd (Fin acc) (map Fin xs) = Fin (acc + sum_list xs)"
  by (induction xs arbitrary: acc) (simp_all add: add.assoc)

lemma fsum_Fin: "fsum (map Fin xs) = Fin (sum_list xs)"
  by (simp add: fsum_def foldl_fadd_Fin)

lemma map2_fmul_flog:
  assumes "\<forall>x \<in> set ds. 0 < x"
  shows "map2 fmul (map Fin ws) (map (\<lambda>x. flog (Fin x)) ds) = map Fin (map2 (\<lambda>w x. w * ln x) ws ds)"
  using assms by (induction ws ds rule: list_induct2') simp_all

lemma broadcast2_same_length:
  "length xs = length ys \<Longrightarrow> broadcast2 f xs ys = Inr (map2 f xs ys)"
  by (simp add: broadcast2_def)

lemma broadcast2_fmul_flog:
  assumes "length ws = length ds" "\<forall>x \<in> set ds. 0 < x"
  shows "broadcast2 fmul (map Fin ws) (map (\<lambda>x. flog (Fin x)) ds)
           = Inr (map Fin (map2 (\<lambda>w x. w * ln x) ws ds))"
proof -
  have "length (map Fin ws) = length (map (\<lambda>x. flog (Fin x)) ds)"
    using assms(1) by simp
  then have "broadcast2 fmul (map Fin ws) (map (\<lambda>x. flog (Fin x)) ds)
           = Inr (map2 fmul (map Fin ws) (map (\<lambda>x. flog (Fin x)) ds))"
    by (rule broadcast2_same_length)
  then show ?thesis
    by (simp only: map2_fmul_flog[OF assms(2)])
qed

lemma flt_trans: "flt a b \<Longrightarrow> flt b c \<Longrightarrow> flt a c"
  by (cases a; cases b; cases c) auto

lemma flt_irrefl: "\<not> flt a a"
  by (cases a) auto

lemma py_min_from_least_gen:
  assumes "\<forall>z \<in> S. \<not> flt (k z) (k best)"
  shows "\<forall>z \<in> S \<union> set (best # xs). \<not> flt (k z) (k (py_min_from k best xs))"
  using assms
proof (induction xs arbitrary: best S)
  case Nil
  then show ?case by (auto simp: flt_irrefl)
next
  case (Cons y ys)
  let ?b = "if flt (k y) (k best) then y else best"
  have "\<forall>z \<in> S \<union> {best, y}. \<not> flt (k z) (k ?b)"
    using Cons.prems by (auto simp: flt_irrefl dest: flt_trans)
  from Cons.IH[OF this] show ?case by auto
qed

lemma py_min_from_least: "x \<in> set (best # xs) \<Longrightarrow> \<not> flt (k x) (k (py_min_from k best xs))"
  using py_min_from_least_gen[of "{}" k best xs] by blast

lemma py_min_from_mem: "py_min_from k best xs \<in> set (best # xs)"
  by (induction xs arbitrary: best) (auto split: if_splits)

section \<open>Lemmas on the seed stage\<close>

lemma solve_one_function_weight_finite:
  assumes "length w = length (grid_points self)" "length (density self) = length w"
    and "\<forall>x \<in> set (density self). 0 < x"
  shows "solve_one_function_weight self w =
     Inr [fexp (fdiv (Fin (ne_b (grid_points self) w * ne_f (grid_points self) (density self) w
                           - ne_c (density self) w * ne_e (grid_points self) w))
                     (Fin (ne_b (grid_points self) w * ne_b (grid_points self) w
                           - ne_a w * ne_e (grid_points self) w))),
          fneg (fdiv (Fin (ne_a w * ne_f (grid_points self) (density self) w
                           - ne_c (density self) w * ne_b (grid_points self) w))
                     (Fin (ne_a w * ne_e (grid_points self) w
                           - ne_b (grid_points self) w * ne_b (grid_points self) w)))]"
proof -
  let ?pts = "grid_points self" and ?dens = "density self"
  have b1: "broadcast2 (*) w (map (\<lambda>r. r ^ 2) ?pts) = Inr (map2 (*) w (map (\<lambda>r. r ^ 2) ?pts))"
    using assms(1) by (simp add: broadcast2_def)
  have b2: "broadcast2 fmul (map Fin w) (map (\<lambda>x. flog (Fin x)) ?dens)
              = Inr (map Fin (map2 (\<lambda>w x. w * ln x) w ?dens))"
    using assms(2,3) by (intro broadcast2_fmul_flog) simp_all
  have b3: "broadcast2 (*) w (map (\<lambda>r. r ^ 4) ?pts) = Inr (map2 (*) w (map (\<lambda>r. r ^ 4) ?pts))"
    using assms(1) by (simp add: broadcast2_def)
  have b4: "broadcast2 fmul (map Fin (map2 (*) w (map (\<lambda>r. r ^ 2) ?pts)))
              (map (\<lambda>x. flog (Fin x)) ?dens)
              = Inr (map Fin (map2 (\<lambda>w x. w * ln x) (map2 (*) w (map (\<lambda>r. r ^ 2) ?pts)) ?dens))"
    using assms by (intro broadcast2_fmul_flog) simp_all
  show ?thesis
    apply (simp only: solve_one_function_weight_def Let_def bind_err_def b1 b2 b3 b4 sum.case
             fsum_Fin)
    by (simp add: fsub_def ne_a_def ne_b_def ne_c_def ne_e_def ne_f_def
          del: fdiv.simps)
qed

lemma swap_quotient:
  fixes x y p q :: real
  shows "(x - y) / (p - q) = (y - x) / (q - p)"
proof -
  have "(y - x) / (q - p) = (- (x - y)) / (- (p - q))" by simp
  also have "\<dots> = (x - y) / (p - q)" by (rule minus_divide_divide)
  finally show ?thesis by simp
qed

lemma cramer_2x2:
  fixes a b c e f D :: real
  assumes "D \<noteq> 0" and D: "D = b * b - a * e"
  shows "a * ((b * f - c * e) / D) + b * ((c * b - a * f) / D) = c"
    and "b * ((b * f - c * e) / D) + e * ((c * b - a * f) / D) = f"
proof -
  have "a * ((b * f - c * e) / D) + b * ((c * b - a * f) / D)
          = (a * (b * f - c * e) + b * (c * b - a * f)) / D"
    by (simp add: add_divide_distrib)
  also have "a * (b * f - c * e) + b * (c * b - a * f) = c * D"
    unfolding D by (simp add: algebra_simps)
  finally show "a * ((b * f - c * e) / D) + b * ((c * b - a * f) / D) = c"
    using assms(1) by simp
  have "b * ((b * f - c * e) / D) + e * ((c * b - a * f) / D)
          = (b * (b * f - c * e) + e * (c * b - a * f)) / D"
    by (simp add: add_divide_distrib)
  also have "b * (b * f - c * e) + e * (c * b - a * f) = f * D"
    unfolding D by (simp add: algebra_simps)
  finally show "b * ((b * f - c * e) / D) + e * ((c * b - a * f) / D) = f"
    using assms(1) by simp
qed

lemma solve_one_function_weight_regular:
  assumes "length w = length (grid_points self)" "length (density self) = length w"
    and "\<forall>x \<in> set (density self). 0 < x"
    and "ne_b (grid_points self) w * ne_b (grid_points self) w
           - ne_a w * ne_e (grid_points self) w \<noteq> 0"
  shows "\<exists>A B. solve_one_function_weight self w = Inr [Fin (exp A), Fin (- B)] \<and>
           ne_a w * A + ne_b (grid_points self) w * B = ne_c (density self) w \<and>
           ne_b (grid_points self) w * A + ne_e (grid_points self) w * B
             = ne_f (grid_points self) (density self) w"
proof -
  let ?a = "ne_a w" and ?b = "ne_b (grid_points self) w" and ?c = "ne_c (density self) w"
    and ?e = "ne_e (grid_points self) w" and ?f = "ne_f (grid_points self) (density self) w"
  let ?A = "(?b * ?f - ?c * ?e) / (?b * ?b - ?a * ?e)"
  let ?B = "(?a * ?f - ?c * ?b) / (?a * ?e - ?b * ?b)"
  have det: "?b * ?b - ?a * ?e \<noteq> 0" "?a * ?e - ?b * ?b \<noteq> 0"
    using assms(4) by auto
  have s: "solve_one_function_weight self w = Inr [Fin (exp ?A), Fin (- ?B)]"
    using solve_one_function_weight_finite[OF assms(1-3)] det by simp
  have B: "?B = (?c * ?b - ?a * ?f) / (?b * ?b - ?a * ?e)"
    by (rule swap_quotient)
  have e1: "?a * ?A + ?b * ?B = ?c"
    unfolding B by (rule cramer_2x2(1)[OF det(1) refl])
  have e2: "?b * ?A + ?e * ?B = ?f"
    unfolding B by (rule cramer_2x2(2)[OF det(1) refl])
  from s e1 e2 show ?thesis by blast
qed

lemma create_model_spec_one:
  "create_model_spec pts [Fin c, Fin ex] = map (\<lambda>r. Fin (c * exp (- (ex * r ^ 2)))) pts"
  by (simp add: create_model_spec_def fsum_def)

lemma map2_residual_Fin:
  "map2 (\<lambda>rho g. fmul (fsub (Fin rho) g) (fsub (Fin rho) g)) ds (map (\<lambda>r. Fin (h r)) ps)
     = map Fin (map2 (\<lambda>rho r. (rho - h r) ^ 2) ds ps)"
  by (induction ds ps rule: list_induct2') (simp_all add: fsub_def power2_eq_square)

lemma cost_function_spec_one:
  "cost_function_spec pts dens [Fin c, Fin ex]
     = Fin (sum_list (map2 (\<lambda>rho r. (rho - c * exp (- (ex * r ^ 2))) ^ 2) dens pts))"
  by (simp only: cost_function_spec_def create_model_spec_one map2_residual_Fin fsum_Fin)

lemma get_best_one_function_solution_no_element:
  assumes "element self = None"
    and "solve_one_function_weight self (replicate (length (grid_points self)) 1) = Inr p1"
    and "cost_function self p1 = Inr c1"
    and "solve_one_function_weight self (density self) = Inr p2"
    and "cost_function self p2 = Inr c2"
    and "solve_one_function_weight self (map (\<lambda>x. x ^ 2) (density self)) = Inr p3"
    and "cost_function self p3 = Inr c3"
  shows "get_best_one_function_solution self =
     (if flt (fst (py_min_from fst (c1, p1) [(c2, p2), (c3, p3)])) (Fin (10 ^ 10))
      then Inr (Some (snd (py_min_from fst (c1, p1) [(c2, p2), (c3, p3)])))
      else Inl UnboundLocalError)"
  by (simp add: get_best_one_function_solution_def Let_def assms bind_err_def)

lemma example_fit_fields:
  "grid_points (example_fit pts dens el) = pts"
  "density (example_fit pts dens el) = dens"
  "element (example_fit pts dens el) = el"
  "cost_function (example_fit pts dens el) p = Inr (cost_function_spec pts dens p)"
  by (simp_all add: example_fit_def)

lemma cost_of_V_shaped_density:
  fixes c ex :: real
  assumes "0 < c"
  shows "10 ^ 10 \<le> sum_list (map2 (\<lambda>rho r. (rho - c * exp (- (ex * r ^ 2))) ^ 2)
                         [1000000, 1, 1000000] [0, 1, 2])"
proof -
  define g0 where "g0 = c"
  define g1 where "g1 = c * exp (- ex)"
  define g2 where "g2 = c * exp (- (ex * 4))"
  have s: "sum_list (map2 (\<lambda>rho r. (rho - c * exp (- (ex * r ^ 2))) ^ 2)
                         [1000000, 1, 1000000] [0, 1, 2])
           = (1000000 - g0)\<^sup>2 + ((1 - g1)\<^sup>2 + (1000000 - g2)\<^sup>2)"
    by (simp add: g0_def g1_def g2_def)
  have sq: "(10::real) ^ 10 \<le> t\<^sup>2" if "499999 \<le> t" for t :: real
  proof -
    have "(499999::real)\<^sup>2 \<le> t\<^sup>2" using that by (intro power_mono) auto
    then show ?thesis by simp
  qed
  have nn: "0 \<le> (1000000 - g0)\<^sup>2" "0 \<le> (1 - g1)\<^sup>2" "0 \<le> (1000000 - g2)\<^sup>2"
    by simp_all
  show ?thesis
  proof (cases "500000 \<le> g1")
    case True
    then have "10 ^ 10 \<le> (g1 - 1)\<^sup>2" by (intro sq) simp
    then have "10 ^ 10 \<le> (1 - g1)\<^sup>2" by (simp add: power2_commute)
    with nn show ?thesis unfolding s by linarith
  next
    case False
    show ?thesis
    proof (cases "0 \<le> ex")
      case True
      then have "exp (- (ex * 4)) \<le> exp (- ex)" by simp
      then have "g2 \<le> g1" unfolding g1_def g2_def using assms by simp
      with False have "10 ^ 10 \<le> (1000000 - g2)\<^sup>2" by (intro sq) simp
      with nn show ?thesis unfolding s by linarith
    next
      case ex: False
      then have "1 \<le> exp (- ex)" by simp
      then have "c * 1 \<le> c * exp (- ex)" using assms by (intro mult_left_mono) simp_all
      then have "g0 \<le> g1" unfolding g0_def g1_def by simp
      with False have "10 ^ 10 \<le> (1000000 - g0)\<^sup>2" by (intro sq) simp
      with nn show ?thesis unfolding s by linarith
    qed
  qed
qed








lemma seed_with_table_TypeError:
  "get_best_one_function_solution
     ((example_fit [0, 1] [1, 1] (Some ''be'')) \<lparr> ugbs := Some [1, 2] \<rparr>) = Inl TypeError"
  by (simp add: get_best_one_function_solution_def bind_err_def Let_def example_fit_def
        solve_one_function_weight_def broadcast2_def np_append_one_argument_def)

lemma seed_stage_returns_a_cheapest_candidate:
  assumes "element self = None" and "get_best_one_function_solution self = Inr r"
  shows "\<exists>p c w. r = Some p \<and> cost_function self p = Inr c \<and>
           w \<in> {replicate (length (grid_points self)) 1, density self,
                 map (\<lambda>x. x ^ 2) (density self)} \<and>
           solve_one_function_weight self w = Inr p \<and>
           (\<forall>w' q cq. w' \<in> {replicate (length (grid_points self)) 1, density self,
                               map (\<lambda>x. x ^ 2) (density self)} \<longrightarrow>
              solve_one_function_weight self w' = Inr q \<longrightarrow>
              cost_function self q = Inr cq \<longrightarrow> \<not> flt cq c)"
proof -
  from assms obtain p1 c1 p2 c2 p3 c3 where
    1: "solve_one_function_weight self (replicate (length (grid_points self)) 1) = Inr p1"
      "cost_function self p1 = Inr c1"
      "solve_one_function_weight self (density self) = Inr p2"
      "cost_function self p2 = Inr c2"
      "solve_one_function_weight self (map (\<lambda>x. x ^ 2) (density self)) = Inr p3"
      "cost_function self p3 = Inr c3"
    by (auto simp: get_best_one_function_solution_def Let_def bind_err_def split: sum.splits)
  let ?m = "py_min_from fst (c1, p1) [(c2, p2), (c3, p3)]"
  from assms get_best_one_function_solution_no_element[OF _ 1]
  have r: "r = Some (snd ?m)"
    by (auto split: if_splits)
  have mem: "?m \<in> set [(c1, p1), (c2, p2), (c3, p3)]" by (rule py_min_from_mem)
  then have c: "cost_function self (snd ?m) = Inr (fst ?m)" using 1 by auto
  from mem 1 have w: "\<exists>w. w \<in> {replicate (length (grid_points self)) 1, density self,
                 map (\<lambda>x. x ^ 2) (density self)} \<and> solve_one_function_weight self w = Inr (snd ?m)"
    by auto
  have least: "\<not> flt cq (fst ?m)"
    if "w' \<in> {replicate (length (grid_points self)) 1, density self,
                               map (\<lambda>x. x ^ 2) (density self)}"
      and "solve_one_function_weight self w' = Inr q" and "cost_function self q = Inr cq"
    for w' q cq
  proof -
    from that 1 have "(cq, q) \<in> set [(c1, p1), (c2, p2), (c3, p3)]" by auto
    from py_min_from_least[OF this, of fst] show ?thesis by simp
  qed
  from r c w least show ?thesis by blast
qed

lemma spread_expand:
  "length ws = length ss \<Longrightarrow>
   spread ws ss t = sum_list (map2 (\<lambda>w s. w * s ^ 2) ws ss)
                     - 2 * t * sum_list (map2 (*) ws ss) + t ^ 2 * sum_list ws"
  unfolding spread_def
  by (induction ws ss rule: list_induct2) (simp_all add: algebra_simps power2_eq_square)

lemma spread_nonneg: "\<forall>w \<in> set ws. 0 \<le> w \<Longrightarrow> 0 \<le> spread ws ss t"
  unfolding spread_def
  by (induction ws ss rule: list_induct2') (simp_all)

lemma spread_pos:
  assumes "length ws = length ss" "\<forall>w \<in> set ws. 0 < w" "\<exists>s \<in> set ss. s \<noteq> t"
  shows "0 < spread ws ss t"
  using assms
proof (induction ws ss rule: list_induct2)
  case Nil
  then show ?case by simp
next
  case (Cons w ws s ss)
  have nn: "0 \<le> spread ws ss t"
    using Cons.prems(1) by (intro spread_nonneg) (auto intro: less_imp_le)
  have w: "0 < w" using Cons.prems(1) by simp
  have step: "spread (w # ws) (s # ss) t = w * (s - t) ^ 2 + spread ws ss t"
    by (simp add: spread_def)
  show ?case
  proof (cases "s = t")
    case True
    with Cons.prems have "\<exists>s \<in> set ss. s \<noteq> t" by auto
    with Cons.IH Cons.prems(1) have "0 < spread ws ss t" by simp
    with True show ?thesis unfolding step by simp
  next
    case False
    then have "0 < w * (s - t) ^ 2" using w by simp
    with nn show ?thesis unfolding step by linarith
  qed
qed

lemma gram_det_Cons:
  assumes "length ws = length ss"
  shows "gram_det (w # ws) (s # ss) = gram_det ws ss + w * spread ws ss s"
  unfolding spread_expand[OF assms] gram_det_def
  by (simp add: algebra_simps power2_eq_square)

lemma gram_det_nonneg:
  "length ws = length ss \<Longrightarrow> \<forall>w \<in> set ws. 0 \<le> w \<Longrightarrow> 0 \<le> gram_det ws ss"
proof (induction ws ss rule: list_induct2)
  case Nil
  then show ?case by (simp add: gram_det_def)
next
  case (Cons w ws s ss)
  then have "0 \<le> gram_det ws ss" "0 \<le> w * spread ws ss s"
    by (auto intro!: mult_nonneg_nonneg spread_nonneg)
  then show ?case unfolding gram_det_Cons[OF Cons.hyps] by linarith
qed

lemma gram_det_pos:
  assumes "length ws = length ss" "\<forall>w \<in> set ws. 0 < w"
    and "\<exists>s \<in> set ss. \<exists>s' \<in> set ss. s \<noteq> s'"
  shows "0 < gram_det ws ss"
  using assms
proof (induction ws ss rule: list_induct2)
  case Nil
  then show ?case by simp
next
  case (Cons w ws s ss)
  have nn: "0 \<le> gram_det ws ss"
    using Cons.hyps Cons.prems(1) by (intro gram_det_nonneg) (auto intro: less_imp_le)
  have "\<exists>x \<in> set ss. x \<noteq> s"
    using Cons.prems(2) by auto
  then have "0 < spread ws ss s"
    using Cons.hyps Cons.prems(1) by (intro spread_pos) auto
  then have "0 < w * spread ws ss s" using Cons.prems(1) by simp
  with nn show ?case unfolding gram_det_Cons[OF Cons.hyps] by linarith
qed

lemma normal_det_gram:
  "normal_det pts w = 4 * gram_det w (map (\<lambda>r. r ^ 2) pts)"
proof -
  have "map2 (*) w (map (\<lambda>r. r ^ 4) pts) = map2 (\<lambda>w s. w * s ^ 2) w (map (\<lambda>r. r ^ 2) pts)"
    by (induction w pts rule: list_induct2') simp_all
  then show ?thesis
    by (simp add: normal_det_def gram_det_def ne_a_def ne_b_def ne_e_def power2_eq_square algebra_simps)
qed

lemma normal_det_pos:
  assumes "length w = length pts" "\<forall>x \<in> set w. 0 < x"
    and "\<exists>r \<in> set pts. \<exists>r' \<in> set pts. r ^ 2 \<noteq> r' ^ 2"
  shows "0 < normal_det pts w"
  unfolding normal_det_gram using assms by (simp add: gram_det_pos)

lemma residual_sum_normal:
  assumes "length w = length pts" "length pts = length dens"
  shows "2 * residual_sum pts dens w A B = ne_c dens w - (ne_a w * A + ne_b pts w * B)"
  using assms unfolding residual_sum_def ne_a_def ne_b_def ne_c_def
  by (induction w pts dens rule: list_induct3) (simp_all add: algebra_simps)

lemma residual_moment_normal:
  assumes "length w = length pts" "length pts = length dens"
  shows "2 * residual_moment pts dens w A B
           = ne_f pts dens w - (ne_b pts w * A + ne_e pts w * B)"
  using assms unfolding residual_moment_def ne_b_def ne_e_def ne_f_def
  by (induction w pts dens rule: list_induct3) (simp_all add: algebra_simps power2_eq_square power4_eq_xxxx)

lemma weighted_log_error_shift:
  assumes "length w = length pts" "length pts = length dens"
  shows "weighted_log_error pts dens w A' B' =
           weighted_log_error pts dens w A B
           - 2 * ((A' - A) * residual_sum pts dens w A B
                  + (B' - B) * residual_moment pts dens w A B)
           + sum_list (map (\<lambda>(w, r, rho). w * ((A' - A) + (B' - B) * r ^ 2) ^ 2)
                        (zip w (zip pts dens)))"
  using assms unfolding weighted_log_error_def residual_sum_def residual_moment_def
proof (induction w pts dens rule: list_induct3)
  case Nil
  then show ?case by simp
next
  case (Cons x xs r rs rho rhos)
  have "x * (ln rho - (A' + B' * r\<^sup>2))\<^sup>2 =
        x * (ln rho - (A + B * r\<^sup>2))\<^sup>2
        - 2 * ((A' - A) * (x * (ln rho - (A + B * r\<^sup>2)))
               + (B' - B) * (x * r\<^sup>2 * (ln rho - (A + B * r\<^sup>2))))
        + x * ((A' - A) + (B' - B) * r\<^sup>2)\<^sup>2"
    by (simp add: power2_eq_square algebra_simps)
  then show ?case using Cons.IH by (simp add: algebra_simps)
qed

lemma normal_equations_minimise:
  assumes len: "length w = length pts" "length pts = length dens"
    and w: "\<forall>x \<in> set w. 0 \<le> x"
    and ne: "ne_a w * A + ne_b pts w * B = ne_c dens w"
            "ne_b pts w * A + ne_e pts w * B = ne_f pts dens w"
  shows "weighted_log_error pts dens w A B \<le> weighted_log_error pts dens w A' B'"
proof -
  have r: "residual_sum pts dens w A B = 0" "residual_moment pts dens w A B = 0"
    using residual_sum_normal[OF len, of A B] residual_moment_normal[OF len, of A B] ne
    by simp_all
  have "0 \<le> sum_list (map (\<lambda>(w, r, rho). w * ((A' - A) + (B' - B) * r ^ 2) ^ 2)
                        (zip w (zip pts dens)))"
    using w by (intro sum_list_nonneg) (auto dest: set_zip_leftD)
  then show ?thesis
    unfolding weighted_log_error_shift[OF len, of A' B' A B] r by simp
qed

lemma seed_stage_on_regular_grid:
  assumes el: "element self = None"
    and len: "length (density self) = length (grid_points self)"
    and pos: "\<forall>x \<in> set (density self). 0 < x"
    and two: "\<exists>r \<in> set (grid_points self). \<exists>r' \<in> set (grid_points self). r ^ 2 \<noteq> r' ^ 2"
    and ret: "get_best_one_function_solution self = Inr r"
  shows "\<exists>w A B c.
           w \<in> {replicate (length (grid_points self)) 1, density self,
                 map (\<lambda>x. x ^ 2) (density self)} \<and>
           r = Some [Fin (exp A), Fin (- B)] \<and>
           ne_a w * A + ne_b (grid_points self) w * B = ne_c (density self) w \<and>
           ne_b (grid_points self) w * A + ne_e (grid_points self) w * B
             = ne_f (grid_points self) (density self) w \<and>
           (\<forall>A' B'. weighted_log_error (grid_points self) (density self) w A B
                      \<le> weighted_log_error (grid_points self) (density self) w A' B') \<and>
           cost_function self [Fin (exp A), Fin (- B)] = Inr c \<and>
           (\<forall>w' q cq. w' \<in> {replicate (length (grid_points self)) 1, density self,
                               map (\<lambda>x. x ^ 2) (density self)} \<longrightarrow>
              solve_one_function_weight self w' = Inr q \<longrightarrow>
              cost_function self q = Inr cq \<longrightarrow> \<not> flt cq c)"
proof -
  let ?W = "{replicate (length (grid_points self)) 1, density self,
             map (\<lambda>x. x ^ 2) (density self)}"
  from seed_stage_returns_a_cheapest_candidate[OF el ret]
  obtain p c w where r: "r = Some p" and c: "cost_function self p = Inr c"
    and w: "w \<in> ?W" and s: "solve_one_function_weight self w = Inr p"
    and least: "\<forall>w' q cq. w' \<in> ?W \<longrightarrow> solve_one_function_weight self w' = Inr q \<longrightarrow>
                  cost_function self q = Inr cq \<longrightarrow> \<not> flt cq c"
    by blast
  have lw: "length w = length (grid_points self)" using w len by auto
  have pw: "\<forall>x \<in> set w. 0 < x" using w pos by fastforce
  have "0 < normal_det (grid_points self) w"
    using lw pw two by (rule normal_det_pos)
  then have det: "ne_b (grid_points self) w * ne_b (grid_points self) w
           - ne_a w * ne_e (grid_points self) w \<noteq> 0"
    by (simp add: normal_det_def)
  from solve_one_function_weight_regular[OF lw _ pos det] len lw
  obtain A B where sol: "solve_one_function_weight self w = Inr [Fin (exp A), Fin (- B)]"
    and ne: "ne_a w * A + ne_b (grid_points self) w * B = ne_c (density self) w"
      "ne_b (grid_points self) w * A + ne_e (grid_points self) w * B
         = ne_f (grid_points self) (density self) w"
    by auto
  from s sol have p: "p = [Fin (exp A), Fin (- B)]" by simp
  have nn: "\<forall>x \<in> set w. 0 \<le> x" using pw by (auto intro: less_imp_le)
  have min: "weighted_log_error (grid_points self) (density self) w A B
               \<le> weighted_log_error (grid_points self) (density self) w A' B'" for A' B'
    using lw len nn ne by (intro normal_equations_minimise) simp_all
  from w r p ne min c least show ?thesis by blast
qed

section \<open>Lemmas on the divergence and the grids\<close>

lemma float_tiny_pos: "0 < float_tiny"
  by (simp add: float_tiny_def)

lemma float_max_tiny: "1 \<le> float_max * float_tiny"
proof -
  have "float_max * float_tiny = (2 - 1 / 2 ^ 52) * (2 ^ 1023 / 2 ^ 1022)"
    by (simp add: float_max_def float_tiny_def)
  also have "(2::real) ^ 1023 / 2 ^ 1022 = 2"
    by (simp add: power_diff)
  finally show ?thesis by simp
qed

lemma overflow_in_domain:
  fixes x y :: real
  assumes "float_max < \<bar>x / y\<bar>"
  shows "\<bar>y\<bar> \<le> \<bar>x\<bar> * float_tiny"
proof (cases "y = 0")
  case True
  then show ?thesis using float_tiny_pos by simp
next
  case False
  then have y: "0 < \<bar>y\<bar>" by simp
  from assms have "float_max * \<bar>y\<bar> < \<bar>x\<bar>"
    using y by (simp add: abs_divide pos_less_divide_eq)
  then have "float_max * \<bar>y\<bar> * float_tiny \<le> \<bar>x\<bar> * float_tiny"
    using float_tiny_pos by (intro mult_right_mono) simp_all
  moreover have "\<bar>y\<bar> * 1 \<le> \<bar>y\<bar> * (float_max * float_tiny)"
    using float_max_tiny by (intro mult_left_mono) simp_all
  ultimately show ?thesis by (simp add: mult_ac)
qed

lemma ratio_nth:
  assumes "i < length ds" "length ms = length ds"
  shows "ma_filled (ma_rtruediv ds (masked_less_equal ms v)) 1 ! i =
           (if ms ! i \<le> v \<or> \<bar>ms ! i\<bar> \<le> \<bar>ds ! i\<bar> * float_tiny then 1 else ds ! i / ms ! i)"
proof -
  have "ma_filled (ma_rtruediv ds (masked_less_equal ms v)) 1 ! i =
           (if ms ! i \<le> v \<or> \<bar>ms ! i\<bar> \<le> \<bar>ds ! i\<bar> * float_tiny
                 \<or> float_max < \<bar>ds ! i / ms ! i\<bar> then 1 else ds ! i / ms ! i)"
    using assms by (simp add: ma_filled_def ma_rtruediv_def masked_less_equal_def)
  then show ?thesis
    using overflow_in_domain[of "ds ! i" "ms ! i"] by auto
qed

lemma evaluate_domain_masked_point:
  assumes "0 \<le> y" "\<bar>y\<bar> \<le> \<bar>x\<bar> * float_tiny"
  shows "evaluate \<lparr> kl_density = array1 [x], kl_mask_value = mv \<rparr> (Array (array1 [y])) True
           = Inr (IntegrandDeriv [Fin 0] [- 1])"
  using assms
  by (simp add: evaluate_def array1_def Let_def ma_filled_def ma_rtruediv_def
        masked_less_equal_def)

lemma ratio_length:
  "length ms = length ds \<Longrightarrow> length (ma_filled (ma_rtruediv ds (masked_less_equal ms v)) 1) = length ds"
  by (simp add: ma_filled_def ma_rtruediv_def masked_less_equal_def)

lemma same_shape_same_length:
  "valid_ndarray a \<Longrightarrow> valid_ndarray b \<Longrightarrow> shape a = shape b \<Longrightarrow> length (flat a) = length (flat b)"
  by (simp add: valid_ndarray_def)

lemma map2_times_map:
  "map2 (*) (map f xs) ys = map2 (\<lambda>p v. f p * v) xs ys"
  by (induction xs ys rule: list_induct2') simp_all

lemma np_diff_length: "length (np_diff xs) = length xs - 1"
  by (simp add: np_diff_def)

lemma np_diff_nth: "i < length xs - 1 \<Longrightarrow> np_diff xs ! i = xs ! (i + 1) - xs ! i"
  by (simp add: np_diff_def nth_tl nth_butlast)

lemma trapz_trapezoidal_rule:
  assumes "length ys = length xs"
  shows "trapz ys xs = trapezoidal_rule xs ys"
proof -
  let ?zs = "map2 (\<lambda>d s. d * s / 2) (np_diff xs) (map2 (+) (tl ys) (butlast ys))"
  have len: "length ?zs = length xs - 1"
    using assms by (simp add: np_diff_length)
  have nth: "?zs ! i = (xs ! (i + 1) - xs ! i) * (ys ! i + ys ! (i + 1)) / 2"
    if "i < length xs - 1" for i
    using that assms by (simp add: np_diff_length np_diff_nth nth_tl nth_butlast add.commute)
  have "trapz ys xs = (\<Sum>i = 0..<length ?zs. ?zs ! i)"
    unfolding trapz_def by (rule sum_list_sum_nth)
  also have "\<dots> = (\<Sum>i < length xs - 1. ?zs ! i)"
    by (simp only: len atLeast0LessThan)
  also have "\<dots> = trapezoidal_rule xs ys"
    unfolding trapezoidal_rule_def by (rule sum.cong) (simp_all add: nth)
  finally show ?thesis .
qed

section \<open>The claims\<close>

subsection \<open>The seed stage\<close>

text \<open>
  C1. The seed stage is to return, of the three closed-form candidates, one of least
  cost. Where every candidate costs 1e10 or more it does not: on the grid \<open>[0, 1, 2]\<close>
  with the densities \<open>[10^6, 1, 10^6]\<close> and no element set, the three systems are regular,
  every candidate has a positive coefficient and so a sum of squared residuals of at
  least 1e10, the test \<open>p_min[0] < val\<close> fails and \<open>return best_found\<close> reads a local that
  was never assigned. (Where the seed stage does return, its result is a candidate of
  least cost, and on a grid with two points of different \<open>r^2\<close> every system is regular
  and solved as the claim says: \<open>seed_stage_on_regular_grid\<close>.)
\<close>

theorem seed_stage_large_cost_unbound_local:
  "get_best_one_function_solution (example_fit [0, 1, 2] [1000000, 1, 1000000] None)
     = Inl UnboundLocalError"
proof -
  let ?F = "example_fit [0, 1, 2] [1000000, 1, 1000000] None
              :: (npfloat list list, real list) GreedyLeastSquares"
  have cand: "\<exists>A B. solve_one_function_weight ?F w = Inr [Fin (exp A), Fin (- B)]"
    if "length w = 3"
      and "ne_b [0, 1, 2] w * ne_b [0, 1, 2] w - ne_a w * ne_e [0, 1, 2] w \<noteq> 0" for w
    using solve_one_function_weight_regular[of w ?F] that
    by (simp add: example_fit_fields) blast
  obtain A1 B1 where p1:
    "solve_one_function_weight ?F (replicate (length (grid_points ?F)) 1) = Inr [Fin (exp A1), Fin (- B1)]"
    using cand[of "[1, 1, 1]"]
    by (auto simp: example_fit_fields ne_a_def ne_b_def ne_e_def numeral_3_eq_3)
  obtain A2 B2 where p2:
    "solve_one_function_weight ?F (density ?F) = Inr [Fin (exp A2), Fin (- B2)]"
    using cand[of "[1000000, 1, 1000000]"]
    by (auto simp: example_fit_fields ne_a_def ne_b_def ne_e_def)
  obtain A3 B3 where p3:
    "solve_one_function_weight ?F (map (\<lambda>x. x ^ 2) (density ?F)) = Inr [Fin (exp A3), Fin (- B3)]"
    using cand[of "[1000000 ^ 2, 1, 1000000 ^ 2]"]
    by (auto simp: example_fit_fields ne_a_def ne_b_def ne_e_def)
  define v where "v A B = sum_list (map2 (\<lambda>rho r. (rho - exp A * exp (- (- B * r ^ 2))) ^ 2)
                         [1000000, 1, 1000000] [0, 1, 2])" for A B :: real
  have cost: "cost_function ?F [Fin (exp A), Fin (- B)] = Inr (Fin (v A B))" for A B
    by (simp only: example_fit_fields cost_function_spec_one v_def)
  have big: "10 ^ 10 \<le> v A B" for A B
    unfolding v_def by (rule cost_of_V_shaped_density) simp
  let ?m = "py_min_from fst (Fin (v A1 B1), [Fin (exp A1), Fin (- B1)])
              [(Fin (v A2 B2), [Fin (exp A2), Fin (- B2)]),
               (Fin (v A3 B3), [Fin (exp A3), Fin (- B3)])]"
  have "?m \<in> set [(Fin (v A1 B1), [Fin (exp A1), Fin (- B1)]),
              (Fin (v A2 B2), [Fin (exp A2), Fin (- B2)]),
               (Fin (v A3 B3), [Fin (exp A3), Fin (- B3)])]"
    by (rule py_min_from_mem)
  then have "\<exists>A B. fst ?m = Fin (v A B)" by auto
  then have nlt: "\<not> flt (fst ?m) (Fin (10 ^ 10))"
    using big by (auto simp: not_less)
  have "element ?F = None" by (simp add: example_fit_fields)
  from get_best_one_function_solution_no_element[OF this p1 cost p2 cost p3 cost] nlt
  show ?thesis by simp
qed




text \<open>
  C4. With the model's element set, the seed stage is to add the candidates seeded from
  the table of exponents. It never gets there: every run raises. The attribute \<open>ugbs\<close> is
  read though the constructor never sets it, and \<open>np.append\<close> is called with one argument
  where it requires two, so no table-seeded candidate is ever built, refined or compared.
\<close>

theorem get_best_one_function_solution_element_raises:
  assumes "element self = Some el"
  shows "\<exists>e. get_best_one_function_solution self = Inl e"
  using assms
  by (auto simp add: get_best_one_function_solution_def bind_err_def Let_def
        np_append_one_argument_def split: sum.splits option.splits)

theorem get_best_one_function_solution_element_raises_witness:
  "element ((example_fit [0, 1] [1, 1] (Some ''be'')) \<lparr> ugbs := Some [1, 2] \<rparr>) = Some ''be'' \<and>
   (\<exists>e. get_best_one_function_solution
           ((example_fit [0, 1] [1, 1] (Some ''be'')) \<lparr> ugbs := Some [1, 2] \<rparr>) = Inl e) \<and>
   get_best_one_function_solution
     ((example_fit [0, 1] [1, 1] (Some ''be'')) \<lparr> ugbs := Some [1, 2] \<rparr>) = Inl TypeError"
proof -
  have h: "element ((example_fit [0, 1] [1, 1] (Some ''be'')) \<lparr> ugbs := Some [1, 2] \<rparr>) = Some ''be''"
    by (simp add: example_fit_def)
  from get_best_one_function_solution_element_raises[OF h] h seed_with_table_TypeError
  show ?thesis by blast
qed

subsection \<open>The refinement\<close>

text \<open>
  C2. For a parameter vector of length 2K, \<open>get_optimization_routine\<close> builds the cofactor
  matrix from the last K entries, hands it with the target density to the non-negative
  least squares solver, and runs the constrained minimizer from the solver's
  coefficients followed by those same K exponents; its result is the minimizer's, and an
  exception of any of the three stages is its exception.
\<close>

theorem get_optimization_routine_nnls_then_slsqp:
  assumes "length params = 2 * K"
  shows "get_optimization_routine self params =
           bind_err (create_cofactor_matrix self (drop K params)) (\<lambda>cofac.
           bind_err (optimize_using_nnls self (density self) cofac) (\<lambda>coeffs.
             optimize_using_slsqp self (coeffs @ drop K params)))
         \<and> length (drop K params) = K"
  using assms by (simp add: get_optimization_routine_def Let_def)

theorem get_optimization_routine_nnls_then_slsqp_witness:
  "length [Fin 3, Fin 5, Fin 1, Fin 2] = 2 * 2 \<and>
   get_optimization_routine (example_fit [0, 1] [1, 1] None) [Fin 3, Fin 5, Fin 1, Fin 2]
     = Inr [Fin 0, Fin 0, Fin 1, Fin 2]"
proof -
  have h: "length [Fin 3, Fin 5, Fin 1, Fin 2] = 2 * 2" by simp
  from get_optimization_routine_nnls_then_slsqp[OF h, of "example_fit [0, 1] [1, 1] None"] h
  show ?thesis
    by (simp add: example_fit_def create_cofactor_matrix_spec_def bind_err_def)
qed

text \<open>
  C10. \<open>get_cost_function\<close> never returns a cost: whatever the parameter vector, its
  result is not a number, and whenever the model's cost function returns a value, that
  value is dropped and the result is \<open>None\<close>.
\<close>

theorem get_cost_function_returns_None:
  "get_cost_function self params \<noteq> Inr (Some v) \<and>
   (cost_function self params = Inr c \<longrightarrow> get_cost_function self params = Inr None)"
  by (simp add: get_cost_function_def bind_err_def split: sum.splits)

theorem get_cost_function_returns_None_witness:
  "cost_function (example_fit [0, 1] [2, 1] None) [Fin 2, Fin 1]
     = Inr (cost_function_spec [0, 1] [2, 1] [Fin 2, Fin 1]) \<and>
   get_cost_function (example_fit [0, 1] [2, 1] None) [Fin 2, Fin 1] = Inr None"
proof -
  have h: "cost_function (example_fit [0, 1] [2, 1] None) [Fin 2, Fin 1]
     = Inr (cost_function_spec [0, 1] [2, 1] [Fin 2, Fin 1])"
    by (simp add: example_fit_def)
  from get_cost_function_returns_None
    [of "example_fit [0, 1] [2, 1] None" "[Fin 2, Fin 1]" "Fin 0"
        "cost_function_spec [0, 1] [2, 1] [Fin 2, Fin 1]"] h
  show ?thesis by blast
qed

subsection \<open>The Kullback-Leibler divergence\<close>

text \<open>
  C5, as the claim states it, fails: the masked division masks more than the entries at
  or below the floor. With the default floor, the density \<open>2^987\<close> and the model \<open>2^-36\<close>,
  the model exceeds the floor and the quotient \<open>2^1023\<close> is a float64, yet
  \<open>abs(density) * tiny >= abs(model)\<close>: the entry is masked, the ratio filled with 1, and
  the integrand is 0 and the derivative -1, not \<open>density * ln(density / model)\<close> and
  \<open>- density / model\<close>.
\<close>

theorem KLDivergence_large_ratio_masked:
  "default_mask_value < 1 / 2 ^ 36 \<and>
   evaluate \<lparr> kl_density = array1 [2 ^ 987], kl_mask_value = default_mask_value \<rparr>
     (Array (array1 [1 / 2 ^ 36])) True = Inr (IntegrandDeriv [Fin 0] [- 1]) \<and>
   fmul (Fin (2 ^ 987)) (flog (Fin (2 ^ 987 / (1 / 2 ^ 36)))) \<noteq> Fin 0 \<and>
   - ((2::real) ^ 987 / (1 / 2 ^ 36)) \<noteq> - 1"
proof -
  have fl: "default_mask_value < 1 / 2 ^ 36"
    by (simp add: default_mask_value_def)
  have q: "(2::real) ^ 987 / (1 / 2 ^ 36) = 2 ^ 1023"
    by (simp add: power_add[symmetric])
  have dom: "\<bar>1 / 2 ^ 36 :: real\<bar> \<le> \<bar>2 ^ 987\<bar> * float_tiny"
  proof -
    have "(2::real) ^ 987 * (1 / 2 ^ 1022) = 1 / 2 ^ 35"
      by (simp add: power_diff[symmetric] divide_simps power_add[symmetric])
    then show ?thesis by (simp add: float_tiny_def)
  qed
  have e: "evaluate \<lparr> kl_density = array1 [2 ^ 987], kl_mask_value = default_mask_value \<rparr>
     (Array (array1 [1 / 2 ^ 36])) True = Inr (IntegrandDeriv [Fin 0] [- 1])"
    by (rule evaluate_domain_masked_point[OF _ dom]) simp
  have "0 < ln ((2::real) ^ 1023)" by (intro ln_gt_zero) simp
  then have v: "fmul (Fin (2 ^ 987)) (flog (Fin (2 ^ 987 / (1 / 2 ^ 36)))) \<noteq> Fin 0"
    unfolding q by simp
  have d: "- ((2::real) ^ 987 / (1 / 2 ^ 36)) \<noteq> - 1"
    unfolding q by simp
  from fl e v d show ?thesis by blast
qed

text \<open>
  C5, amended. For a model array of the density's shape with no negative entry,
  \<open>evaluate\<close> returns one value per point. Where the model is at or below the floor, or
  where \<open>abs(density) * tiny >= abs(model)\<close> (the domain of the masked division, \<open>tiny\<close> the
  smallest normal float64; a model value of 0 is such a point), the ratio is 1, the
  integrand 0 and the derivative -1. At every other point the integrand is the density
  times the logarithm of density over model and the derivative is minus that ratio.
  With \<open>deriv=False\<close> the same integrand is returned alone.
\<close>

theorem KLDivergence_evaluate_masked:
  assumes init: "KLDivergence_init (Array d) mv = Inr self"
    and valid: "valid_ndarray d" "valid_ndarray m"
    and shp: "shape m = shape d"
    and nonneg: "\<forall>x \<in> set (flat m). 0 \<le> x"
  shows "\<exists>vs rs. evaluate self (Array m) True = Inr (IntegrandDeriv vs rs) \<and>
           evaluate self (Array m) False = Inr (Integrand vs) \<and>
           length vs = length (flat d) \<and> length rs = length (flat d) \<and>
           (\<forall>i < length (flat d).
              (flat m ! i \<le> mv \<or> \<bar>flat m ! i\<bar> \<le> \<bar>flat d ! i\<bar> * float_tiny
                 \<longrightarrow> vs ! i = Fin 0 \<and> rs ! i = - 1) \<and>
              (mv < flat m ! i \<and> \<bar>flat d ! i\<bar> * float_tiny < \<bar>flat m ! i\<bar> \<longrightarrow>
                 vs ! i = fmul (Fin (flat d ! i)) (flog (Fin (flat d ! i / flat m ! i))) \<and>
                 rs ! i = - (flat d ! i / flat m ! i)))"
proof -
  from init have self: "self = \<lparr> kl_density = d, kl_mask_value = mv \<rparr>"
    by (auto simp: KLDivergence_init_def split: if_splits)
  have len: "length (flat m) = length (flat d)"
    using valid shp by (rule_tac same_shape_same_length) auto
  define ratio where "ratio = ma_filled (ma_rtruediv (flat d) (masked_less_equal (flat m) mv)) 1"
  define vs where "vs = map2 (\<lambda>d r. fmul (Fin d) (flog (Fin r))) (flat d) ratio"
  have noneg: "\<not> (\<exists>x \<in> set (flat m). x < 0)" using nonneg by auto
  have lr: "length ratio = length (flat d)" unfolding ratio_def using len by (rule ratio_length)
  have e1: "evaluate self (Array m) True = Inr (IntegrandDeriv vs (map uminus ratio))"
    using noneg shp by (simp add: evaluate_def self vs_def ratio_def Let_def)
  have e2: "evaluate self (Array m) False = Inr (Integrand vs)"
    using noneg shp by (simp add: evaluate_def self vs_def ratio_def Let_def)
  have pt: "(flat m ! i \<le> mv \<or> \<bar>flat m ! i\<bar> \<le> \<bar>flat d ! i\<bar> * float_tiny
                 \<longrightarrow> vs ! i = Fin 0 \<and> map uminus ratio ! i = - 1) \<and>
              (mv < flat m ! i \<and> \<bar>flat d ! i\<bar> * float_tiny < \<bar>flat m ! i\<bar> \<longrightarrow>
                 vs ! i = fmul (Fin (flat d ! i)) (flog (Fin (flat d ! i / flat m ! i))) \<and>
                 map uminus ratio ! i = - (flat d ! i / flat m ! i))" if i: "i < length (flat d)" for i
  proof -
    have r: "ratio ! i = (if flat m ! i \<le> mv \<or> \<bar>flat m ! i\<bar> \<le> \<bar>flat d ! i\<bar> * float_tiny
                          then 1 else flat d ! i / flat m ! i)"
      unfolding ratio_def using i len by (rule ratio_nth)
    have v: "vs ! i = fmul (Fin (flat d ! i)) (flog (Fin (ratio ! i)))"
      using i lr by (simp add: vs_def)
    have u: "map uminus ratio ! i = - (ratio ! i)" using i lr by simp
    show ?thesis unfolding v u r by auto
  qed
  show ?thesis using e1 e2 lr pt by (intro exI[of _ vs] exI[of _ "map uminus ratio"]) (simp add: vs_def)
qed

theorem KLDivergence_evaluate_masked_witness:
  "KLDivergence_init (Array (array1 [2, 3, 0])) default_mask_value
     = Inr \<lparr> kl_density = array1 [2, 3, 0], kl_mask_value = default_mask_value \<rparr> \<and>
   valid_ndarray (array1 [2, 3, 0]) \<and> valid_ndarray (array1 [4, 0, 1]) \<and>
   shape (array1 [4, 0, 1]) = shape (array1 [2, 3, 0]) \<and>
   list_all (\<lambda>x. 0 \<le> x) (flat (array1 [4, 0, 1])) \<and>
   evaluate \<lparr> kl_density = array1 [2, 3, 0], kl_mask_value = default_mask_value \<rparr>
     (Array (array1 [4, 0, 1])) True
     = Inr (IntegrandDeriv [Fin (2 * ln (1 / 2)), Fin 0, NaN] [- (1 / 2), - 1, 0])"
proof -
  let ?self = "\<lparr> kl_density = array1 [2, 3, 0], kl_mask_value = default_mask_value \<rparr>"
  have h1: "KLDivergence_init (Array (array1 [2, 3, 0])) default_mask_value = Inr ?self"
    by (simp add: KLDivergence_init_def array1_def ndim_def)
  have h2: "valid_ndarray (array1 [2, 3, 0])" "valid_ndarray (array1 [4, 0, 1])"
    by (simp_all add: valid_ndarray_def array1_def)
  have h3: "shape (array1 [4, 0, 1]) = shape (array1 [2, 3, 0])" by (simp add: array1_def)
  have h4: "\<forall>x \<in> set (flat (array1 [4, 0, 1])). 0 \<le> x" by (simp add: array1_def)
  from KLDivergence_evaluate_masked[OF h1 h2 h3 h4]
  obtain vs rs where e: "evaluate ?self (Array (array1 [4, 0, 1])) True = Inr (IntegrandDeriv vs rs)"
    and l: "length vs = length (flat (array1 [2, 3, 0]))" "length rs = length (flat (array1 [2, 3, 0]))"
    and p: "\<forall>i < length (flat (array1 [2, 3, 0])).
              (flat (array1 [4, 0, 1]) ! i \<le> default_mask_value
                 \<or> \<bar>flat (array1 [4, 0, 1]) ! i\<bar> \<le> \<bar>flat (array1 [2, 3, 0]) ! i\<bar> * float_tiny
                 \<longrightarrow> vs ! i = Fin 0 \<and> rs ! i = - 1) \<and>
              (default_mask_value < flat (array1 [4, 0, 1]) ! i
                 \<and> \<bar>flat (array1 [2, 3, 0]) ! i\<bar> * float_tiny < \<bar>flat (array1 [4, 0, 1]) ! i\<bar> \<longrightarrow>
                 vs ! i = fmul (Fin (flat (array1 [2, 3, 0]) ! i))
                            (flog (Fin (flat (array1 [2, 3, 0]) ! i / flat (array1 [4, 0, 1]) ! i))) \<and>
                 rs ! i = - (flat (array1 [2, 3, 0]) ! i / flat (array1 [4, 0, 1]) ! i))"
    by blast
  from l obtain v0 v1 v2 where vs: "vs = [v0, v1, v2]"
    by (auto simp: array1_def length_Suc_conv numeral_3_eq_3)
  from l obtain r0 r1 r2 where rs: "rs = [r0, r1, r2]"
    by (auto simp: array1_def length_Suc_conv numeral_3_eq_3)
  have m: "default_mask_value < 4" "0 \<le> default_mask_value" "default_mask_value < 1"
    by (simp_all add: default_mask_value_def)
  have t: "2 * float_tiny < 4" "0 < float_tiny"
    by (simp_all add: float_tiny_def)
  from p[rule_format, of 0] p[rule_format, of 1] p[rule_format, of 2] m t
  have "vs = [Fin (2 * ln (1 / 2)), Fin 0, NaN] \<and> rs = [- (1 / 2), - 1, 0]"
    by (simp add: vs rs array1_def inf_of_sign_def)
  with e h1 h2 h3 h4 show ?thesis by (simp add: list_all_iff)
qed

text \<open>
  C6. For a 1-D array, the constructor of \<open>KLDivergence\<close> raises exactly when some element
  of the density is negative; and \<open>evaluate\<close> raises ValueError, computing nothing, when a
  model of the density's shape has a negative element.
\<close>

theorem KLDivergence_raises_on_negative:
  assumes "ndim d = 1"
  shows "((\<exists>e. KLDivergence_init (Array d) mv = Inl e) \<longleftrightarrow> (\<exists>x \<in> set (flat d). x < 0)) \<and>
         (KLDivergence_init (Array d) mv = Inr self \<and> shape m = shape d \<and>
            (\<exists>x \<in> set (flat m). x < 0)
          \<longrightarrow> evaluate self (Array m) deriv = Inl ValueError)"
  using assms by (auto simp: KLDivergence_init_def evaluate_def split: if_splits)

theorem KLDivergence_raises_on_negative_witness:
  "ndim (array1 [1, - 2]) = 1 \<and>
   (\<exists>e. KLDivergence_init (Array (array1 [1, - 2])) default_mask_value = Inl e) \<and>
   KLDivergence_init (Array (array1 [1, 2])) default_mask_value
     = Inr \<lparr> kl_density = array1 [1, 2], kl_mask_value = default_mask_value \<rparr> \<and>
   evaluate \<lparr> kl_density = array1 [1, 2], kl_mask_value = default_mask_value \<rparr>
     (Array (array1 [3, - 1])) True = Inl ValueError"
proof -
  have h: "ndim (array1 [1, - 2]) = 1" "ndim (array1 [1, 2]) = 1"
    by (simp_all add: ndim_def array1_def)
  have i: "KLDivergence_init (Array (array1 [1, 2])) default_mask_value
     = Inr \<lparr> kl_density = array1 [1, 2], kl_mask_value = default_mask_value \<rparr>"
    by (simp add: KLDivergence_init_def ndim_def array1_def)
  have n: "\<exists>x \<in> set (flat (array1 [1, - 2])). x < 0" "\<exists>x \<in> set (flat (array1 [3, - 1])). x < 0"
    "shape (array1 [3, - 1]) = shape (array1 [1, 2])"
    by (simp_all add: array1_def)
  from KLDivergence_raises_on_negative[OF h(1), of default_mask_value] n(1)
  have a: "\<exists>e. KLDivergence_init (Array (array1 [1, - 2])) default_mask_value = Inl e"
    by blast
  from KLDivergence_raises_on_negative[OF h(2), of default_mask_value _ "array1 [3, - 1]" True] i n
  have b: "evaluate \<lparr> kl_density = array1 [1, 2], kl_mask_value = default_mask_value \<rparr>
     (Array (array1 [3, - 1])) True = Inl ValueError"
    by blast
  from h a i b show ?thesis by blast
qed

text \<open>
  C7. For a 1-D density with no negative entry, the divergence of the density from
  itself is zero at every point, whatever the floor.
\<close>

theorem KLDivergence_self_divergence_zero:
  assumes "ndim d = 1" and "\<forall>x \<in> set (flat d). 0 \<le> x"
  shows "\<exists>self. KLDivergence_init (Array d) mv = Inr self \<and>
           evaluate self (Array d) False = Inr (Integrand (replicate (length (flat d)) (Fin 0)))"
proof -
  let ?self = "\<lparr> kl_density = d, kl_mask_value = mv \<rparr>"
  have noneg: "\<not> (\<exists>x \<in> set (flat d). x < 0)" using assms(2) by auto
  have init: "KLDivergence_init (Array d) mv = Inr ?self"
    using assms(1) noneg by (simp add: KLDivergence_init_def)
  define ratio where "ratio = ma_filled (ma_rtruediv (flat d) (masked_less_equal (flat d) mv)) 1"
  have lr: "length ratio = length (flat d)" unfolding ratio_def by (rule ratio_length) simp
  have r1: "ratio ! i = 1" if "i < length (flat d)" for i
    using ratio_nth[OF that, of "flat d" mv] by (simp add: ratio_def)
  have "map2 (\<lambda>d r. fmul (Fin d) (flog (Fin r))) (flat d) ratio = replicate (length (flat d)) (Fin 0)"
    using lr r1 by (intro nth_equalityI) simp_all
  then have "evaluate ?self (Array d) False = Inr (Integrand (replicate (length (flat d)) (Fin 0)))"
    using noneg by (simp add: evaluate_def ratio_def Let_def)
  with init show ?thesis by blast
qed

theorem KLDivergence_self_divergence_zero_witness:
  "ndim (array1 [2, 0, 1 / 10 ^ 13]) = 1 \<and>
   list_all (\<lambda>x. 0 \<le> x) (flat (array1 [2, 0, 1 / 10 ^ 13])) \<and>
   KLDivergence_init (Array (array1 [2, 0, 1 / 10 ^ 13])) default_mask_value
     = Inr \<lparr> kl_density = array1 [2, 0, 1 / 10 ^ 13], kl_mask_value = default_mask_value \<rparr> \<and>
   evaluate \<lparr> kl_density = array1 [2, 0, 1 / 10 ^ 13], kl_mask_value = default_mask_value \<rparr>
     (Array (array1 [2, 0, 1 / 10 ^ 13])) False = Inr (Integrand [Fin 0, Fin 0, Fin 0])"
proof -
  have h1: "ndim (array1 [2, 0, 1 / 10 ^ 13]) = 1" by (simp add: ndim_def array1_def)
  have h2: "\<forall>x \<in> set (flat (array1 [2, 0, 1 / 10 ^ 13])). 0 \<le> x" by (simp add: array1_def)
  from KLDivergence_self_divergence_zero[OF h1 h2, of default_mask_value]
  obtain self where s: "KLDivergence_init (Array (array1 [2, 0, 1 / 10 ^ 13])) default_mask_value = Inr self"
    and e: "evaluate self (Array (array1 [2, 0, 1 / 10 ^ 13])) False
              = Inr (Integrand (replicate (length (flat (array1 [2, 0, 1 / 10 ^ 13]))) (Fin 0)))"
    by blast
  have i: "KLDivergence_init (Array (array1 [2, 0, 1 / 10 ^ 13])) default_mask_value
     = Inr \<lparr> kl_density = array1 [2, 0, 1 / 10 ^ 13], kl_mask_value = default_mask_value \<rparr>"
    using h1 by (simp add: KLDivergence_init_def array1_def)
  from s i have "self = \<lparr> kl_density = array1 [2, 0, 1 / 10 ^ 13], kl_mask_value = default_mask_value \<rparr>"
    by simp
  with e h1 h2 i show ?thesis
    by (simp add: array1_def list_all_iff numeral_3_eq_3)
qed

subsection \<open>The grids\<close>

text \<open>
  C8. \<open>integrate\<close> raises ValueError when the shape of the values is not the shape of the
  points; otherwise it is the trapezoidal rule over the points, of the values times the
  squared points and scaled by 4 pi on a spherical grid, of the values alone otherwise.
\<close>

theorem integrate_is_trapezoidal_rule:
  assumes "valid_ndarray arr"
  shows "integrate self arr =
     (if shape arr \<noteq> [length (points self)] then Inl ValueError
      else if spherical self
        then Inr (4 * pi * trapezoidal_rule (points self)
                    (map2 (\<lambda>p v. p ^ 2 * v) (points self) (flat arr)))
        else Inr (trapezoidal_rule (points self) (flat arr)))"
proof (cases "shape arr = [length (points self)]")
  case False
  then show ?thesis by (simp add: integrate_def)
next
  case True
  with assms have len: "length (flat arr) = length (points self)"
    by (simp add: valid_ndarray_def)
  have m: "map2 (*) (map (\<lambda>p. p ^ 2) (points self)) (flat arr)
             = map2 (\<lambda>p v. p ^ 2 * v) (points self) (flat arr)"
    by (rule map2_times_map)
  show ?thesis
    using True len by (simp add: integrate_def m trapz_trapezoidal_rule)
qed

theorem integrate_is_trapezoidal_rule_witness:
  "valid_ndarray (array1 [1, 3, 1]) \<and> valid_ndarray (array1 [1, 3]) \<and>
   integrate \<lparr> points = [0, 1, 3], spherical = False \<rparr> (array1 [1, 3, 1]) = Inr 6 \<and>
   integrate \<lparr> points = [0, 1, 3], spherical = True \<rparr> (array1 [1, 3, 1]) = Inr (54 * pi) \<and>
   integrate \<lparr> points = [0, 1, 3], spherical = False \<rparr> (array1 [1, 3]) = Inl ValueError"
proof -
  have v: "valid_ndarray (array1 [1, 3, 1])" "valid_ndarray (array1 [1, 3])"
    by (simp_all add: valid_ndarray_def array1_def)
  have two: "{..<2::nat} = {0, 1}" by auto
  from integrate_is_trapezoidal_rule[OF v(1), of "\<lparr> points = [0, 1, 3], spherical = False \<rparr>"]
  have a: "integrate \<lparr> points = [0, 1, 3], spherical = False \<rparr> (array1 [1, 3, 1]) = Inr 6"
    by (simp add: array1_def trapezoidal_rule_def two)
  from integrate_is_trapezoidal_rule[OF v(1), of "\<lparr> points = [0, 1, 3], spherical = True \<rparr>"]
  have b: "integrate \<lparr> points = [0, 1, 3], spherical = True \<rparr> (array1 [1, 3, 1]) = Inr (54 * pi)"
    by (simp add: array1_def trapezoidal_rule_def two)
  from integrate_is_trapezoidal_rule[OF v(2), of "\<lparr> points = [0, 1, 3], spherical = False \<rparr>"]
  have c: "integrate \<lparr> points = [0, 1, 3], spherical = False \<rparr> (array1 [1, 3]) = Inl ValueError"
    by (simp add: array1_def)
  from v a b c show ?thesis by simp
qed

text \<open>
  C9, as the claim states it, fails: \<open>ClenshawRadialGrid\<close> accepts point counts of zero,
  and builds a grid with no point.
\<close>

theorem ClenshawRadialGrid_zero_counts_accepted:
  "ClenshawRadialGrid_init (PyInt 1) (PyInt 0) (PyInt 0) ExtraNone True
     = Inr \<lparr> points = [], spherical = True, atomic_number = 1 \<rparr>"
  by (simp add: ClenshawRadialGrid_init_def BaseRadialGrid_init_def array1_def ndim_def
        get_points_def bind_err_def)

text \<open>
  C9, amended. The constructors succeed exactly on these arguments: \<open>UniformRadialGrid\<close>
  for an integer \<open>num_pts > 0\<close> and numbers \<open>min_radii < max_radii\<close>; \<open>ClenshawRadialGrid\<close>
  for an integer atomic number above zero and integer point counts that are not negative
  (and extra points that can be iterated); \<open>CubicGrid\<close> for numbers with \<open>step_size > 0\<close>
  and \<open>smallest_pnt < largest_pnt\<close>. Every other argument raises.
\<close>

theorem grid_constructors_validate:
  "((\<exists>g. UniformRadialGrid_init num_pts min_radii max_radii sph = Inr g) \<longleftrightarrow>
      pos_int num_pts \<and> is_number min_radii \<and> is_number max_radii \<and>
      num_val min_radii < num_val max_radii) \<and>
   ((\<exists>g. ClenshawRadialGrid_init z num_core_pts num_diffuse_pts extra sph = Inr g) \<longleftrightarrow>
      pos_int z \<and> nonneg_int num_core_pts \<and> nonneg_int num_diffuse_pts \<and>
      extra \<noteq> ExtraNotIterable) \<and>
   ((\<exists>g. CubicGrid_init smallest_pnt largest_pnt step_size = Inr g) \<longleftrightarrow>
      is_number smallest_pnt \<and> is_number largest_pnt \<and> is_number step_size \<and>
      0 < num_val step_size \<and> num_val smallest_pnt < num_val largest_pnt)"
proof (intro conjI)
  show "(\<exists>g. UniformRadialGrid_init num_pts min_radii max_radii sph = Inr g) \<longleftrightarrow>
      pos_int num_pts \<and> is_number min_radii \<and> is_number max_radii \<and>
      num_val min_radii < num_val max_radii"
    by (cases num_pts)
       (auto simp: UniformRadialGrid_init_def BaseRadialGrid_init_def array1_def ndim_def
             split: if_splits)
  show "(\<exists>g. ClenshawRadialGrid_init z num_core_pts num_diffuse_pts extra sph = Inr g) \<longleftrightarrow>
      pos_int z \<and> nonneg_int num_core_pts \<and> nonneg_int num_diffuse_pts \<and>
      extra \<noteq> ExtraNotIterable"
    by (cases extra)
       (auto simp: ClenshawRadialGrid_init_def BaseRadialGrid_init_def array1_def ndim_def
             get_points_def bind_err_def split: if_splits list.splits)
  show "(\<exists>g. CubicGrid_init smallest_pnt largest_pnt step_size = Inr g) \<longleftrightarrow>
      is_number smallest_pnt \<and> is_number largest_pnt \<and> is_number step_size \<and>
      0 < num_val step_size \<and> num_val smallest_pnt < num_val largest_pnt"
    by (auto simp: CubicGrid_init_def Let_def split: if_splits)
qed

theorem grid_constructors_validate_witness:
  "(\<exists>g. UniformRadialGrid_init (PyInt 3) (PyFloat 0) (PyFloat 10) True = Inr g) \<and>
   \<not> (\<exists>g. UniformRadialGrid_init (PyInt 0) (PyFloat 0) (PyFloat 10) True = Inr g) \<and>
   \<not> (\<exists>g. UniformRadialGrid_init (PyInt 3) (PyFloat 10) (PyFloat 10) True = Inr g) \<and>
   (\<exists>g. ClenshawRadialGrid_init (PyInt 4) (PyInt 0) (PyInt 2) ExtraNone True = Inr g) \<and>
   \<not> (\<exists>g. ClenshawRadialGrid_init (PyInt 4) (PyInt (- 1)) (PyInt 2) ExtraNone True = Inr g) \<and>
   (\<exists>g. CubicGrid_init (PyInt 0) (PyInt 1) (PyFloat (1 / 2)) = Inr g) \<and>
   \<not> (\<exists>g. CubicGrid_init (PyInt 0) (PyInt 1) (PyFloat 0) = Inr g) \<and>
   \<not> (\<exists>g. CubicGrid_init (PyInt 1) (PyInt 1) (PyFloat (1 / 2)) = Inr g)"
  using
    grid_constructors_validate
      [of "PyInt 3" "PyFloat 0" "PyFloat 10" True "PyInt 4" "PyInt 0" "PyInt 2" ExtraNone
          "PyInt 0" "PyInt 1" "PyFloat (1 / 2)"]
    grid_constructors_validate
      [of "PyInt 0" "PyFloat 0" "PyFloat 10" True "PyInt 4" "PyInt (- 1)" "PyInt 2" ExtraNone
          "PyInt 0" "PyInt 1" "PyFloat 0"]
    grid_constructors_validate
      [of "PyInt 3" "PyFloat 10" "PyFloat 10" True "PyInt 4" "PyInt 0" "PyInt 2" ExtraNone
          "PyInt 1" "PyInt 1" "PyFloat (1 / 2)"]
  by simp

end
